theory Spec2Isabelle
  imports Complex_Main
begin

section \<open>Weighted binary cross-entropy loss of mmseg\<close>

text \<open>
  A shallow embedding of \<^verbatim>\<open>mmseg/models/losses/binary_cross_entropy_loss.py\<close>.

  Tensors are a shape and the row-major list of their elements. Integer tensors hold
  \<open>int\<close>; the wrap-around of the source's 64-bit integers is not modelled. Floating
  point values are exact reals extended with the two infinities and NaN: the rules of
  IEEE 754 for the non-finite values are kept (in particular \<open>0/0 = NaN\<close> and
  \<open>0 * NaN = NaN\<close>); rounding, signed zeros and the overflow of a finite result to an
  infinity are not modelled.

  Every exception the Python code can raise is a value of \<open>error\<close>, returned as
  \<open>Inl\<close>. A call also returns the contents of the caller's label and weight tensors
  after the call, because the source writes to its arguments in place.
\<close>

subsection \<open>Errors, floats, tensors\<close>

datatype error =
  AssertionError | IndexError | RuntimeError | AttributeError | TypeError | ValueError

datatype flt = Fin real | PInf | NInf | NaN

fun fneg :: "flt \<Rightarrow> flt" where
  "fneg (Fin a) = Fin (- a)"
| "fneg PInf = NInf"
| "fneg NInf = PInf"
| "fneg NaN = NaN"

fun fadd :: "flt \<Rightarrow> flt \<Rightarrow> flt" where
  "fadd (Fin a) (Fin b) = Fin (a + b)"
| "fadd NaN _ = NaN"
| "fadd _ NaN = NaN"
| "fadd PInf NInf = NaN"
| "fadd NInf PInf = NaN"
| "fadd PInf _ = PInf"
| "fadd _ PInf = PInf"
| "fadd NInf _ = NInf"
| "fadd _ NInf = NInf"

definition fsub :: "flt \<Rightarrow> flt \<Rightarrow> flt" where
  "fsub a b = fadd a (fneg b)"

definition signed_inf :: "bool \<Rightarrow> flt" where
  "signed_inf positive = (if positive then PInf else NInf)"

fun fmul :: "flt \<Rightarrow> flt \<Rightarrow> flt" where
  "fmul (Fin a) (Fin b) = Fin (a * b)"
| "fmul NaN _ = NaN"
| "fmul _ NaN = NaN"
| "fmul (Fin a) PInf = (if a = 0 then NaN else signed_inf (0 < a))"
| "fmul (Fin a) NInf = (if a = 0 then NaN else signed_inf (a < 0))"
| "fmul PInf (Fin b) = (if b = 0 then NaN else signed_inf (0 < b))"
| "fmul NInf (Fin b) = (if b = 0 then NaN else signed_inf (b < 0))"
| "fmul PInf PInf = PInf"
| "fmul NInf NInf = PInf"
| "fmul PInf NInf = NInf"
| "fmul NInf PInf = NInf"

fun fdiv :: "flt \<Rightarrow> flt \<Rightarrow> flt" where
  "fdiv (Fin a) (Fin b) =
     (if b = 0 then (if a = 0 then NaN else signed_inf (0 < a)) else Fin (a / b))"
| "fdiv NaN _ = NaN"
| "fdiv _ NaN = NaN"
| "fdiv (Fin a) _ = Fin 0"
| "fdiv PInf (Fin b) = signed_inf (0 \<le> b)"
| "fdiv NInf (Fin b) = signed_inf (b < 0)"
| "fdiv _ _ = NaN"

text \<open>\<^verbatim>\<open>Tensor.sum()\<close> of a vector, and the cast of a boolean to a float.\<close>

definition fsum :: "flt list \<Rightarrow> flt" where
  "fsum xs = foldr fadd xs (Fin 0)"

definition of_bool_flt :: "bool \<Rightarrow> flt" where
  "of_bool_flt b = Fin (if b then 1 else 0)"

datatype 'a tensor = Tensor (shape: "nat list") (data: "'a list")

definition dim :: "'a tensor \<Rightarrow> nat" where
  "dim t = length (shape t)"

text \<open>\<^verbatim>\<open>Tensor.float()\<close> of an integer tensor.\<close>

definition float :: "int tensor \<Rightarrow> flt tensor" where
  "float t = Tensor (shape t) (map (\<lambda>v. Fin (real_of_int v)) (data t))"

subsection \<open>\<^verbatim>\<open>torch.histc\<close>\<close>

text \<open>
  The library function \<^verbatim>\<open>Tensor.histc(bins, min, max)\<close>, after its documentation:
  the elements are sorted into \<open>bins\<close> bins of equal width between \<open>min\<close> and \<open>max\<close>;
  elements below \<open>min\<close> or above \<open>max\<close> are ignored; an element equal to \<open>max\<close> falls
  into the last bin; when \<open>min = max\<close> the minimum and maximum of the data are used,
  and when these coincide too the range is widened by one on each side. It raises
  when \<open>bins\<close> is not positive. The elements here are integers cast to float.
\<close>

definition histc_edges :: "int list \<Rightarrow> int \<Rightarrow> int \<Rightarrow> int \<times> int" where
  "histc_edges xs lo hi =
     (let (l, r) = (if lo = hi \<and> xs \<noteq> []
                    then (fold min (tl xs) (hd xs), fold max (tl xs) (hd xs))
                    else (lo, hi))
      in if l = r then (l - 1, r + 1) else (l, r))"

definition histc_bin :: "nat \<Rightarrow> int \<Rightarrow> int \<Rightarrow> int \<Rightarrow> nat option" where
  "histc_bin bins l r v =
     (if v < l \<or> r < v then None
      else Some (min (bins - 1) (nat (((v - l) * int bins) div (r - l)))))"

definition histc :: "int list \<Rightarrow> nat \<Rightarrow> int \<Rightarrow> int \<Rightarrow> error + nat list" where
  "histc xs bins lo hi =
     (if bins = 0 \<or> hi < lo then Inl RuntimeError
      else let (l, r) = histc_edges xs lo hi
           in Inr (map (\<lambda>b. length (filter (\<lambda>v. histc_bin bins l r v = Some b) xs))
                       [0..<bins]))"

subsection \<open>\<^verbatim>\<open>calculate_weights\<close>\<close>

definition calculate_weights :: "int tensor \<Rightarrow> nat \<Rightarrow> bool \<Rightarrow> real \<Rightarrow> error + flt list" where
  "calculate_weights label num_classes normalise upper_bound =
     (case histc (data label) num_classes 0 (int num_classes - 1) of
        Inl e \<Rightarrow> Inl e
      | Inr counts \<Rightarrow>
          let hist = map (\<lambda>n. Fin (real n)) counts;
              hist_norm = map (\<lambda>h. fdiv h (fsum hist)) hist
          in if normalise
             then Inr (map2 (\<lambda>h hn.
                    fadd (fmul (fmul (of_bool_flt (h \<noteq> Fin 0)) (Fin upper_bound))
                               (fdiv (Fin 1) (fadd hn (Fin (1 / 1000000)))))
                         (Fin 1)) hist hist_norm)
             else Inr (map2 (\<lambda>h hn.
                    fadd (fmul (fmul (of_bool_flt (h \<noteq> Fin 0)) (Fin upper_bound))
                               (fsub (Fin 1) hn))
                         (Fin 1)) hist hist_norm))"

subsection \<open>Shapes, views and indexing\<close>

definition bind_err :: "error + 'a \<Rightarrow> ('a \<Rightarrow> error + 'b) \<Rightarrow> error + 'b" where
  "bind_err r f = (case r of Inl e \<Rightarrow> Inl e | Inr v \<Rightarrow> f v)"

text \<open>The coordinates of the \<open>p\<close>-th element of a tensor of the given shape.\<close>

fun unravel :: "nat list \<Rightarrow> nat \<Rightarrow> nat list" where
  "unravel [] p = []"
| "unravel (s # ss) p = (p div prod_list ss) # unravel ss (p mod prod_list ss)"

text \<open>
  The position of a full coordinate tuple in a tensor of the given shape; \<open>None\<close> when a
  coordinate is out of bounds (the library raises \<^verbatim>\<open>IndexError\<close>).
\<close>

fun flat_index :: "nat list \<Rightarrow> nat list \<Rightarrow> nat option" where
  "flat_index [] [] = Some 0"
| "flat_index (s # ss) (j # js) =
     (if j < s then map_option (\<lambda>r. j * prod_list ss + r) (flat_index ss js) else None)"
| "flat_index _ _ = None"

text \<open>\<^verbatim>\<open>t[ix_1, ..., ix_k] = 1\<close> for a list of coordinate tuples.\<close>

fun index_put_ones :: "nat list \<Rightarrow> nat list list \<Rightarrow> int list \<Rightarrow> error + int list" where
  "index_put_ones sh [] d = Inr d"
| "index_put_ones sh (ix # ixs) d =
     (case flat_index sh ix of
        None \<Rightarrow> Inl IndexError
      | Some k \<Rightarrow> index_put_ones sh ixs (d[k := 1]))"

definition unsqueeze :: "nat \<Rightarrow> nat list \<Rightarrow> error + nat list" where
  "unsqueeze k sh = (if k \<le> length sh then Inr (take k sh @ 1 # drop k sh) else Inl IndexError)"

text \<open>
  \<^verbatim>\<open>Tensor.expand\<close>: the source shape is aligned to the right of the target, new leading
  dimensions are allowed, and every source dimension must equal the target's or be 1.
\<close>

definition pad_shape :: "nat list \<Rightarrow> nat list \<Rightarrow> nat list" where
  "pad_shape src tgt = replicate (length tgt - length src) 1 @ src"

definition expandable :: "nat list \<Rightarrow> nat list \<Rightarrow> bool" where
  "expandable src tgt =
     (length src \<le> length tgt \<and> list_all2 (\<lambda>s t. s = t \<or> s = 1) (pad_shape src tgt) tgt)"

fun expand_data :: "nat list \<Rightarrow> nat list \<Rightarrow> 'a list \<Rightarrow> 'a list" where
  "expand_data (s # ss) (t # ts) d =
     (if s = t
      then concat (map (\<lambda>i. expand_data ss ts (take (prod_list ss) (drop (i * prod_list ss) d)))
                       [0..<s])
      else concat (replicate t (expand_data ss ts d)))"
| "expand_data _ _ d = d"

definition expand :: "'a tensor \<Rightarrow> nat list \<Rightarrow> error + 'a tensor" where
  "expand t tgt =
     (if expandable (shape t) tgt
      then Inr (Tensor tgt (expand_data (pad_shape (shape t) tgt) tgt (data t)))
      else Inl RuntimeError)"

text \<open>
  An expanded view has several elements at one memory location when a dimension of
  size 1 was expanded to a size above 1; the library refuses to write to such a view in
  place.
\<close>

definition overlapping :: "nat list \<Rightarrow> nat list \<Rightarrow> bool" where
  "overlapping src tgt = list_ex (\<lambda>(s, t). s \<noteq> t \<and> 1 < t) (zip (pad_shape src tgt) tgt)"

text \<open>\<^verbatim>\<open>t[i]\<close> and \<^verbatim>\<open>t[i] = r\<close> on the first dimension.\<close>

definition select :: "'a tensor \<Rightarrow> nat \<Rightarrow> error + 'a tensor" where
  "select t i =
     (if dim t = 0 \<or> hd (shape t) \<le> i then Inl IndexError
      else let n = prod_list (tl (shape t))
           in Inr (Tensor (tl (shape t)) (take n (drop (i * n) (data t)))))"

definition setitem :: "'a tensor \<Rightarrow> nat \<Rightarrow> 'a tensor \<Rightarrow> error + 'a tensor" where
  "setitem t i r =
     (if dim t = 0 \<or> hd (shape t) \<le> i then Inl IndexError
      else let dst = tl (shape t);
               src = dropWhile (\<lambda>d. d = 1) (shape r);
               n = prod_list dst
           in if \<not> expandable src dst then Inl RuntimeError
              else Inr (Tensor (shape t)
                     (take (i * n) (data t)
                      @ expand_data (pad_shape src dst) dst (data r)
                      @ drop (i * n + n) (data t))))"

subsection \<open>\<^verbatim>\<open>_expand_onehot_labels\<close>\<close>

text \<open>
  What a call leaves behind: the contents of the caller's label and weight tensors
  when the call ends (also when it ends with an exception), and what it returned.
\<close>

record 'a call =
  labels_after :: "int tensor"
  weights_after :: "flt tensor option"
  returned :: "error + 'a"

text \<open>
  The caller passes labels of rank 1 with a target of rank 2, or labels of rank 3 with a
  target of rank 4; the index assignment is modelled for coordinate tuples as long as
  the target's rank, which covers both.
\<close>

definition expand_onehot_labels ::
  "int tensor \<Rightarrow> flt tensor option \<Rightarrow> nat list \<Rightarrow> int \<Rightarrow> bool \<Rightarrow> (int tensor \<times> flt tensor) call"
where
  "expand_onehot_labels labels label_weights target_shape ignore_index include_zero =
     (let labels1 = (if \<not> include_zero
                     then Tensor (shape labels)
                            (map (\<lambda>l. if l \<noteq> ignore_index then l - 1 else l) (data labels))
                     else labels);
          zeros = replicate (prod_list target_shape) 0;
          valid_mask = map (\<lambda>l. 0 \<le> l \<and> l \<noteq> ignore_index) (data labels1);
          inds = filter (\<lambda>p. valid_mask ! p) [0..<length valid_mask];
          put = (if inds \<noteq> []
                 then if dim labels1 = 3
                      then index_put_ones target_shape
                             (map (\<lambda>p. let ix = unravel (shape labels1) p
                                        in [ix ! 0, nat (data labels1 ! p), ix ! 1, ix ! 2]) inds)
                             zeros
                      else index_put_ones target_shape
                             (map (\<lambda>p. [p div prod_list (tl (shape labels1)),
                                         nat (data labels1 ! p)]) inds)
                             zeros
                 else Inr zeros);
          mask = bind_err (unsqueeze 1 (shape labels1))
                   (\<lambda>s1. expand (Tensor s1 (map of_bool_flt valid_mask)) target_shape)
      in case bind_err put (\<lambda>bin. bind_err mask (\<lambda>m. Inr (Tensor target_shape bin, m))) of
           Inl e \<Rightarrow> \<lparr>labels_after = labels1, weights_after = label_weights, returned = Inl e\<rparr>
         | Inr (bin_labels, valid) \<Rightarrow>
             (case label_weights of
                None \<Rightarrow>
                  \<lparr>labels_after = labels1, weights_after = None,
                   returned = Inr (bin_labels, valid)\<rparr>
              | Some lw \<Rightarrow>
                  (case bind_err (unsqueeze 1 (shape lw)) (\<lambda>s1. expand (Tensor s1 (data lw)) target_shape) of
                     Inl e \<Rightarrow>
                       \<lparr>labels_after = labels1, weights_after = label_weights, returned = Inl e\<rparr>
                   | Inr view \<Rightarrow>
                       if overlapping (take 1 (shape lw) @ 1 # drop 1 (shape lw)) target_shape
                       then \<lparr>labels_after = labels1, weights_after = label_weights,
                             returned = Inl RuntimeError\<rparr>
                       else let w = map2 fmul (data view) (data valid)
                            in \<lparr>labels_after = labels1,
                                weights_after =
                                  (if prod_list target_shape = 0 then label_weights
                                   else Some (Tensor (shape lw) w)),
                                returned = Inr (bin_labels, Tensor target_shape w)\<rparr>)))"

subsection \<open>\<^verbatim>\<open>F.binary_cross_entropy_with_logits\<close>\<close>

text \<open>
  The library function with \<^verbatim>\<open>reduction='none'\<close>, after its documentation: the target
  must have the size of the input, the positive-class weight is broadcast with the
  target, and the result has the input's shape; so the call raises unless the weight
  can be expanded to the target's shape. The value of one element, the sigmoid
  cross-entropy of a logit \<open>x\<close>, a target \<open>t\<close> and a positive weight \<open>w\<close>, is the
  parameter \<open>elem\<close>.
\<close>

definition binary_cross_entropy_with_logits ::
  "(flt \<Rightarrow> flt \<Rightarrow> flt \<Rightarrow> flt) \<Rightarrow> flt tensor \<Rightarrow> flt tensor \<Rightarrow> flt tensor \<Rightarrow> error + flt tensor"
where
  "binary_cross_entropy_with_logits elem input target pos_weight =
     (if shape target \<noteq> shape input then Inl ValueError
      else if \<not> expandable (shape pos_weight) (shape target) then Inl RuntimeError
      else Inr (Tensor (shape input)
             (map (\<lambda>(x, t, w). elem x t w)
                (zip (data input)
                   (zip (data target)
                      (expand_data (pad_shape (shape pos_weight) (shape target))
                         (shape target) (data pos_weight)))))))"

subsection \<open>\<^verbatim>\<open>binary_cross_entropy\<close>\<close>

text \<open>
  \<^verbatim>\<open>class_weight.unsqueeze(0).unsqueeze(2).unsqueeze(3)\<close> of a class-weight vector.
\<close>

definition pos_weight_of :: "flt list \<Rightarrow> flt tensor" where
  "pos_weight_of class_weight = Tensor [1, length class_weight, 1, 1] class_weight"

text \<open>The loop of the per-image mode (source lines 86 to 96), over the sample indices.\<close>

fun per_image_loop ::
  "(flt \<Rightarrow> flt \<Rightarrow> flt \<Rightarrow> flt) \<Rightarrow> flt tensor \<Rightarrow> int tensor \<Rightarrow> string option \<Rightarrow> bool
    \<Rightarrow> nat list \<Rightarrow> flt tensor \<Rightarrow> error + flt tensor"
where
  "per_image_loop elem pred label img_based_class_weights include_zero [] loss = Inr loss"
| "per_image_loop elem pred label img_based_class_weights include_zero (i # rest) loss =
     bind_err (select label i) (\<lambda>label_i.
     bind_err (calculate_weights label_i (shape pred ! 1)
                 (img_based_class_weights = Some ''norm'') 1) (\<lambda>cw.
     let class_weight = (if include_zero then cw else tl cw) in
     bind_err (select pred i) (\<lambda>pred_i.
     bind_err (binary_cross_entropy_with_logits elem
                 (Tensor (1 # shape pred_i) (data pred_i))
                 (Tensor (1 # shape label_i) (data (float label_i)))
                 (pos_weight_of class_weight)) (\<lambda>r.
     bind_err (setitem loss i r) (\<lambda>loss1.
     per_image_loop elem pred label img_based_class_weights include_zero rest loss1)))))"

text \<open>
  The element-wise loss (source lines 82 to 110), from the prediction and the label
  tensor as it is after the expansion.
\<close>

definition elementwise_loss ::
  "(flt \<Rightarrow> flt \<Rightarrow> flt \<Rightarrow> flt) \<Rightarrow> flt tensor \<Rightarrow> int tensor \<Rightarrow> string option \<Rightarrow> bool
    \<Rightarrow> flt list option \<Rightarrow> bool \<Rightarrow> error + flt tensor"
where
  "elementwise_loss elem pred label img_based_class_weights batch_weights class_weight
       include_zero =
     (if class_weight = None \<and> img_based_class_weights \<noteq> None \<and> \<not> batch_weights
      then if \<not> (2 < dim pred \<and> 1 < dim label) then Inl AssertionError
           else per_image_loop elem pred label img_based_class_weights include_zero
                  [0..<hd (shape pred)]
                  (Tensor (shape label) (replicate (prod_list (shape label)) (Fin 0)))
      else
        bind_err
          (if class_weight = None \<and> img_based_class_weights \<noteq> None \<and> batch_weights
           then if dim pred < 2 then Inl IndexError
                else map_sum id Some
                       (calculate_weights label (shape pred ! 1)
                          (img_based_class_weights = Some ''norm'') 1)
           else Inr class_weight) (\<lambda>cw.
        bind_err
          (if include_zero then Inr cw
           else case cw of None \<Rightarrow> Inl TypeError | Some v \<Rightarrow> Inr (Some (tl v))) (\<lambda>cw1.
        case cw1 of
          None \<Rightarrow> Inl AttributeError
        | Some v \<Rightarrow> binary_cross_entropy_with_logits elem pred (float label) (pos_weight_of v))))"

text \<open>
  \<^verbatim>\<open>weight_reduce_loss\<close> comes from the package's \<^verbatim>\<open>utils\<close> module and is a parameter
  here: it takes the element-wise loss, the optional weight, the reduction mode and
  the optional averaging factor.
\<close>

type_synonym reducer =
  "flt tensor \<Rightarrow> flt tensor option \<Rightarrow> string \<Rightarrow> flt option \<Rightarrow> error + flt tensor"

definition binary_cross_entropy ::
  "(flt \<Rightarrow> flt \<Rightarrow> flt \<Rightarrow> flt) \<Rightarrow> reducer \<Rightarrow> flt tensor \<Rightarrow> int tensor \<Rightarrow> flt tensor option
    \<Rightarrow> string option \<Rightarrow> bool \<Rightarrow> flt list option \<Rightarrow> string \<Rightarrow> flt option \<Rightarrow> int \<Rightarrow> bool
    \<Rightarrow> flt tensor call"
where
  "binary_cross_entropy elem weight_reduce_loss pred label weight img_based_class_weights
       batch_weights class_weight reduction avg_factor ignore_index include_zero =
     (let ex =
        (if dim pred \<noteq> dim label
         then if (dim pred = 2 \<and> dim label = 1) \<or> (dim pred = 4 \<and> dim label = 3)
              then let c = expand_onehot_labels label weight (shape pred) ignore_index
                             include_zero
                   in \<lparr>labels_after = labels_after c, weights_after = weights_after c,
                       returned = map_sum id (\<lambda>(l, w). (l, Some w)) (returned c)\<rparr>
              else \<lparr>labels_after = label, weights_after = weight,
                    returned = Inl AssertionError\<rparr>
         else \<lparr>labels_after = label, weights_after = weight,
               returned = Inr (label, weight)\<rparr>)
      in \<lparr>labels_after = labels_after ex, weights_after = weights_after ex,
          returned =
            bind_err (returned ex) (\<lambda>(label1, weight1).
            bind_err (elementwise_loss elem pred label1 img_based_class_weights
                        batch_weights class_weight include_zero) (\<lambda>loss.
            weight_reduce_loss loss weight1 reduction avg_factor))\<rparr>)"

subsection \<open>\<^verbatim>\<open>BinaryCrossEntropyLoss\<close>\<close>

record BinaryCrossEntropyLoss =
  include_zero :: bool
  img_based_class_weights :: "string option"
  batch_weights :: bool
  reduction :: string
  class_weight :: "real list option"
  loss_weight :: real



subsection \<open>Instances of the two parameters\<close>

text \<open>
  For evaluating calls: an element function that returns the positive weight it is
  given, which shows the weights that reach the loss, and a reducer that returns the
  element-wise loss as it is.
\<close>

definition weight_seen :: "flt \<Rightarrow> flt \<Rightarrow> flt \<Rightarrow> flt" where
  "weight_seen x t w = w"

definition unreduced :: reducer where
  "unreduced loss weight mode avg_factor = Inr loss"

subsection \<open>The histogram weights as the specification states them\<close>

text \<open>
  The number of labels equal to a class, the number of labels in the class range, and
  the weight of a class: presence times upper bound times \<open>1 / (histNorm + 1e-6)\<close> plus 1
  with normalisation, presence times upper bound times \<open>1 - histNorm\<close> plus 1 without,
  where \<open>histNorm\<close> is the share of the class among the labels in range.
\<close>

definition class_count :: "int list \<Rightarrow> nat \<Rightarrow> nat" where
  "class_count xs c = length (filter (\<lambda>v. v = int c) xs)"

definition valid_count :: "int list \<Rightarrow> nat \<Rightarrow> nat" where
  "valid_count xs n = length (filter (\<lambda>v. 0 \<le> v \<and> v < int n) xs)"

definition hist_weight :: "int tensor \<Rightarrow> nat \<Rightarrow> bool \<Rightarrow> real \<Rightarrow> nat \<Rightarrow> real" where
  "hist_weight label num_classes normalise upper_bound c =
     (let presence = (if class_count (data label) c \<noteq> 0 then 1 else 0);
          hist_norm = real (class_count (data label) c)
                      / real (valid_count (data label) num_classes)
      in if normalise then presence * upper_bound * (1 / (hist_norm + 1 / 1000000)) + 1
         else presence * upper_bound * (1 - hist_norm) + 1)"

section \<open>Properties\<close>

subsection \<open>What a call with expanded labels returns\<close>

lemma returned_binary_cross_entropy_expanded:
  assumes "(dim pred = 2 \<and> dim label = 1) \<or> (dim pred = 4 \<and> dim label = 3)"
  shows "returned (binary_cross_entropy elem wrl pred label weight img bw cw red af ii iz) =
     bind_err (returned (expand_onehot_labels label weight (shape pred) ii iz)) (\<lambda>(l, w).
     bind_err (elementwise_loss elem pred l img bw cw iz) (\<lambda>loss. wrl loss (Some w) red af))"
proof -
  have "dim pred \<noteq> dim label" using assms by auto
  then show ?thesis
    using assms
    by (cases "returned (expand_onehot_labels label weight (shape pred) ii iz)")
       (auto simp add: binary_cross_entropy_def bind_err_def Let_def)
qed

lemma elementwise_loss_no_weights:
  "elementwise_loss elem pred label None bw None True = Inl AttributeError"
  by (simp add: elementwise_loss_def bind_err_def)

lemma no_weights_raises:
  assumes "(dim pred = 2 \<and> dim label = 1) \<or> (dim pred = 4 \<and> dim label = 3)"
    and "\<not> isl (returned (expand_onehot_labels label weight (shape pred) ii True))"
  shows "returned (binary_cross_entropy elem wrl pred label weight None bw None red af ii True)
         = Inl AttributeError"
proof -
  obtain r where r: "returned (expand_onehot_labels label weight (shape pred) ii True) = Inr r"
    using assms(2)
    by (cases "returned (expand_onehot_labels label weight (shape pred) ii True)") auto
  show ?thesis
    by (simp add: returned_binary_cross_entropy_expanded [OF assms(1)] r bind_err_def
        elementwise_loss_no_weights split: prod.split)
qed

subsection \<open>The default configuration\<close>

text \<open>
  C1. The scenario of the specification: a prediction of shape (2,3,4,4), labels of shape
  (2,4,4) with values in {0,1,2}, \<open>ignore_index = 255\<close>, the zero class included, no
  histogram mode and no class-weight vector. The specification expects the mean sigmoid
  cross-entropy. The code raises instead: with no class-weight vector, line 109 calls
  \<^verbatim>\<open>unsqueeze\<close> on \<^verbatim>\<open>None\<close>. This holds for every prediction of that shape, every
  element function and every reducer.
\<close>

theorem default_scenario_raises:
  "returned (binary_cross_entropy elem weight_reduce_loss (Tensor [2, 3, 4, 4] logits)
     (Tensor [2, 4, 4]
        [0, 1, 2, 0,  1, 2, 0, 1,  2, 0, 1, 2,  0, 1, 2, 0,
         2, 2, 2, 2,  1, 1, 1, 1,  0, 0, 0, 0,  2, 1, 0, 1])
     None None True None ''mean'' None 255 True) = Inl AttributeError"
proof (rule no_weights_raises)
  show "dim (Tensor [2, 3, 4, 4] logits) = 2 \<and> dim (Tensor [2, 4, 4]
        [0, 1, 2, 0,  1, 2, 0, 1,  2, 0, 1, 2,  0, 1, 2, 0,
         2, 2, 2, 2,  1, 1, 1, 1,  0, 0, 0, 0,  2, 1, 0, 1 :: int]) = 1
      \<or> dim (Tensor [2, 3, 4, 4] logits) = 4 \<and> dim (Tensor [2, 4, 4]
        [0, 1, 2, 0,  1, 2, 0, 1,  2, 0, 1, 2,  0, 1, 2, 0,
         2, 2, 2, 2,  1, 1, 1, 1,  0, 0, 0, 0,  2, 1, 0, 1 :: int]) = 3"
    by (simp add: dim_def)
  have "\<not> isl (returned (expand_onehot_labels (Tensor [2, 4, 4]
        [0, 1, 2, 0,  1, 2, 0, 1,  2, 0, 1, 2,  0, 1, 2, 0,
         2, 2, 2, 2,  1, 1, 1, 1,  0, 0, 0, 0,  2, 1, 0, 1]) None [2, 3, 4, 4] 255 True))"
    by code_simp
  then show "\<not> isl (returned (expand_onehot_labels (Tensor [2, 4, 4]
        [0, 1, 2, 0,  1, 2, 0, 1,  2, 0, 1, 2,  0, 1, 2, 0,
         2, 2, 2, 2,  1, 1, 1, 1,  0, 0, 0, 0,  2, 1, 0, 1]) None
        (shape (Tensor [2, 3, 4, 4] logits)) 255 True))"
    unfolding tensor.sel .
qed

subsection \<open>The labels behind the histogram weights\<close>

text \<open>
  C2. With a histogram mode and labels of lower rank than the prediction, the
  specification has the class weights computed from the class-index labels. The code
  passes the expanded one-hot tensor to \<open>calculate_weights\<close>, so the histogram counts
  zeros and ones. For one sample of three classes with the two pixels labelled 0 and 2,
  the positive weights reaching the loss (read off with an element function that
  returns its weight) are 4/3, 5/3 and 1 in batch mode and in per-image mode, whereas
  the class-index labels give 3/2, 1 and 3/2.
\<close>

theorem histogram_weights_from_onehot_labels:
  "returned (binary_cross_entropy weight_seen unreduced
       (Tensor [1, 3, 1, 2] (replicate 6 (Fin 0))) (Tensor [1, 1, 2] [0, 2]) None
       (Some ''no_norm'') True None ''none'' None 255 True)
     = Inr (Tensor [1, 3, 1, 2]
              [Fin (4 / 3), Fin (4 / 3), Fin (5 / 3), Fin (5 / 3), Fin 1, Fin 1])
   \<and> returned (binary_cross_entropy weight_seen unreduced
       (Tensor [1, 3, 1, 2] (replicate 6 (Fin 0))) (Tensor [1, 1, 2] [0, 2]) None
       (Some ''no_norm'') False None ''none'' None 255 True)
     = Inr (Tensor [1, 3, 1, 2]
              [Fin (4 / 3), Fin (4 / 3), Fin (5 / 3), Fin (5 / 3), Fin 1, Fin 1])
   \<and> calculate_weights (Tensor [1, 1, 2] [0, 2]) 3 False 1
     = Inr [Fin (3 / 2), Fin 1, Fin (3 / 2)]"
  by code_simp

subsection \<open>The caller's label tensor\<close>

text \<open>
  C3. The specification calls \<open>binary_cross_entropy\<close> purely functional. With the zero
  class excluded and labels of lower rank than the prediction, line 27 decrements the
  caller's label tensor in place: labels 1 and 2 are 0 and 1 after the call.
\<close>

theorem labels_mutated_in_place:
  "labels_after (binary_cross_entropy elem weight_reduce_loss (Tensor [1, 2, 1, 2] logits)
     (Tensor [1, 1, 2] [1, 2]) None None True (Some [Fin 1, Fin 1, Fin 1]) ''mean'' None
     255 False) = Tensor [1, 1, 2] [0, 1]"
  by (simp add: binary_cross_entropy_def dim_def expand_onehot_labels_def Let_def
      split: sum.split prod.split)

subsection \<open>Predictions of rank 2\<close>

text \<open>
  C4. The specification has the pair of a prediction (N,C) and labels (N,) supported
  like the pair (N,C,H,W) and (N,H,W). With a prediction of shape (1,2), the label 0 and
  the class weights 1 and 1 the expansion succeeds, but line 109 reshapes the class
  weights to (1,C,1,1), which cannot be broadcast into (N,C): the library raises and no
  loss is computed.
\<close>

theorem rank2_prediction_raises:
  "returned (binary_cross_entropy elem weight_reduce_loss (Tensor [1, 2] logits)
     (Tensor [1] [0]) None None True (Some [Fin 1, Fin 1]) ''mean'' None 255 True)
   = Inl RuntimeError"
  by (simp add: binary_cross_entropy_def dim_def expand_onehot_labels_def bind_err_def Let_def
      elementwise_loss_def unsqueeze_def expand_def expandable_def pad_shape_def
      binary_cross_entropy_with_logits_def pos_weight_of_def float_def)

subsection \<open>Histogram weights\<close>

lemma fsum_counts: "fsum (map (\<lambda>n. Fin (real n)) ns) = Fin (real (sum_list ns))"
  by (induction ns) (simp_all add: fsum_def)

lemma valid_count_Suc: "valid_count xs (Suc n) = valid_count xs n + class_count xs n"
  by (induction xs) (auto simp add: valid_count_def class_count_def)

lemma sum_class_counts: "sum_list (map (class_count xs) [0..<n]) = valid_count xs n"
proof (induction n)
  case 0
  show ?case by (simp add: valid_count_def)
next
  case (Suc n)
  then show ?case by (simp add: valid_count_Suc)
qed

lemma class_count_le_valid: "c < n \<Longrightarrow> class_count xs c \<le> valid_count xs n"
  by (induction xs) (auto simp add: valid_count_def class_count_def)

lemma bin_of_class:
  assumes "2 \<le> n" "0 \<le> v" "v \<le> int n - 1"
  shows "min (n - 1) (nat ((v * int n) div (int n - 1))) = nat v"
proof -
  define d where "d = int n - 1"
  have d: "1 \<le> d" "int n = d + 1" using assms(1) by (simp_all add: d_def)
  have "v * int n = v * d + v" by (simp add: d algebra_simps)
  then have q: "(v * int n) div d = v + v div d"
    using d(1) by simp
  show ?thesis
  proof (cases "v < d")
    case True
    then have "v div d = 0" using assms(2) by simp
    with q have "(v * int n) div d = v" by simp
    then show ?thesis using True assms(2) d by (simp add: d_def [symmetric])
  next
    case False
    then have "v = d" using assms(3) by (simp add: d_def)
    then have "(v * int n) div d = d + 1" using q d(1) by simp
    then show ?thesis using \<open>v = d\<close> d by (simp add: d_def [symmetric])
  qed
qed

lemma histc_bin_class:
  assumes "2 \<le> n" "b < n"
  shows "histc_bin n 0 (int n - 1) v = Some b \<longleftrightarrow> v = int b"
proof (cases "0 \<le> v \<and> v \<le> int n - 1")
  case True
  then have "histc_bin n 0 (int n - 1) v = Some (nat v)"
    using bin_of_class [OF assms(1), of v] by (simp add: histc_bin_def)
  then show ?thesis using True by auto
next
  case False
  then show ?thesis using assms(2) by (auto simp add: histc_bin_def)
qed

lemma histc_class_counts:
  assumes "2 \<le> n"
  shows "histc xs n 0 (int n - 1) = Inr (map (class_count xs) [0..<n])"
proof -
  have e: "histc_edges xs 0 (int n - 1) = (0, int n - 1)"
    using assms by (simp add: histc_edges_def)
  have "length (filter (\<lambda>v. histc_bin n 0 (int n - 1) v = Some b) xs) = class_count xs b"
    if "b < n" for b
    using histc_bin_class [OF assms that] by (simp add: class_count_def)
  then show ?thesis
    using assms by (simp add: histc_def e)
qed


lemma fold_min_le: "v \<in> set (x # xs) \<Longrightarrow> fold min xs x \<le> (v::int)"
  using Min.set_eq_fold [of x xs] Min_le [of "set (x # xs)" v] by simp

lemma fold_max_ge: "v \<in> set (x # xs) \<Longrightarrow> (v::int) \<le> fold max xs x"
  using Max.set_eq_fold [of x xs] Max_ge [of "set (x # xs)" v] by simp

lemma histc_single_bin:
  assumes "xs \<noteq> []"
  shows "histc xs 1 0 0 = Inr [length xs]"
proof -
  obtain l r where e: "histc_edges xs 0 0 = (l, r)" by (cases "histc_edges xs 0 0")
  have in_range: "l \<le> v \<and> v \<le> r" if "v \<in> set xs" for v
  proof -
    obtain y ys where xs: "xs = y # ys" using assms by (cases xs) auto
    have "fold min ys y \<le> v" "v \<le> fold max ys y"
      using that fold_min_le [of v y ys] fold_max_ge [of v y ys] by (simp_all add: xs)
    then show ?thesis
      using e by (auto simp add: histc_edges_def xs Let_def split: if_splits)
  qed
  then have "histc_bin 1 l r v = Some 0" if "v \<in> set xs" for v
    using that by (fastforce simp add: histc_bin_def)
  then have "filter (\<lambda>v. histc_bin 1 l r v = Some 0) xs = xs"
    by (simp add: filter_id_conv)
  then show ?thesis
    by (simp add: histc_def e)
qed


lemma calculate_weights_counts:
  assumes "histc (data label) n 0 (int n - 1) = Inr (map cnt [0..<n])"
    and "sum_list (map cnt [0..<n]) = tot"
  shows "calculate_weights label n normalise upper_bound =
     Inr (map (\<lambda>c.
        if normalise
        then fadd (fmul (fmul (of_bool_flt (cnt c \<noteq> 0)) (Fin upper_bound))
                     (fdiv (Fin 1) (fadd (fdiv (Fin (real (cnt c))) (Fin (real tot)))
                                         (Fin (1 / 1000000)))))
                  (Fin 1)
        else fadd (fmul (fmul (of_bool_flt (cnt c \<noteq> 0)) (Fin upper_bound))
                     (fsub (Fin 1) (fdiv (Fin (real (cnt c))) (Fin (real tot)))))
                  (Fin 1)) [0..<n])"
proof -
  have s: "fsum (map (\<lambda>n. Fin (real n)) (map cnt [0..<n])) = Fin (real tot)"
    using assms(2) by (simp only: fsum_counts)
  show ?thesis
    unfolding calculate_weights_def assms(1) sum.case Let_def s
    by (simp add: zip_map_map zip_same_conv_map comp_def del: fdiv.simps fadd.simps fmul.simps)
qed


lemma hist_weight_absent:
  "class_count (data label) c = 0 \<Longrightarrow> hist_weight label n normalise upper_bound c = 1"
  by (simp add: hist_weight_def)

lemma hist_weight_ge_1:
  assumes "c < n" "0 \<le> upper_bound"
  shows "1 \<le> hist_weight label n normalise upper_bound c"
proof -
  define a where "a = real (class_count (data label) c)"
  define b where "b = real (valid_count (data label) n)"
  have ab: "0 \<le> a" "a \<le> b"
    using class_count_le_valid [OF assms(1), of "data label"] by (simp_all add: a_def b_def)
  then have "0 \<le> b" by linarith
  have q: "0 \<le> a / b" "a / b \<le> 1"
    using ab \<open>0 \<le> b\<close> by (simp_all add: divide_le_eq_1) linarith
  then have "0 \<le> upper_bound * (1 / (a / b + 1 / 1000000))" "0 \<le> upper_bound * (1 - a / b)"
    using assms(2) by simp_all
  then show ?thesis
    by (simp add: hist_weight_def a_def [symmetric] b_def [symmetric] Let_def)
qed

lemma calculate_weights_many:
  assumes "2 \<le> n" "0 < valid_count (data label) n"
  shows "calculate_weights label n normalise upper_bound =
     Inr (map (\<lambda>c. Fin (hist_weight label n normalise upper_bound c)) [0..<n])"
proof -
  define a where "a c = real (class_count (data label) c)" for c
  define b where "b = real (valid_count (data label) n)"
  have b: "0 < b" using assms(2) by (simp add: b_def)
  have pos: "a c / b + 1 / 1000000 \<noteq> 0" for c
  proof -
    have "0 \<le> a c / b" using b by (simp add: a_def)
    then show ?thesis by linarith
  qed
  show ?thesis
    using b pos
    by (simp add: calculate_weights_counts [OF histc_class_counts [OF assms(1)] sum_class_counts]
        hist_weight_def of_bool_flt_def fsub_def a_def [symmetric] b_def [symmetric])
qed

lemma calculate_weights_one:
  assumes "0 < valid_count (data label) 1"
  shows "calculate_weights label 1 normalise upper_bound =
     Inr (map (\<lambda>c. Fin (hist_weight label 1 normalise upper_bound c)) [0..<1])"
proof -
  have ne: "data label \<noteq> []" using assms by (auto simp add: valid_count_def)
  have h: "histc (data label) 1 0 (int 1 - 1) = Inr (map (\<lambda>c. length (data label)) [0..<1])"
    using histc_single_bin [OF ne] by simp
  have c0: "class_count (data label) 0 = valid_count (data label) 1"
    using sum_class_counts [of "data label" 1] by simp
  have len: "0 < length (data label)" using ne by simp
  note cw = calculate_weights_counts [OF h refl, of normalise upper_bound]
  show ?thesis
    unfolding cw using assms len
    by (simp add: hist_weight_def of_bool_flt_def fsub_def c0)
qed

text \<open>
  With the upper bound 1, the only one the program passes, and at least one label in
  the class range, \<open>calculate_weights\<close> returns one weight per class, the weight the
  specification states; each is at least 1, and exactly 1 for a class absent from the
  labels.
\<close>

lemma histogram_weights_of_present_classes:
  assumes "\<exists>v \<in> set (data label). 0 \<le> v \<and> v < int n"
  shows "calculate_weights label n normalise 1 =
           Inr (map (\<lambda>c. Fin (hist_weight label n normalise 1 c)) [0..<n])
         \<and> (\<forall>c < n. 1 \<le> hist_weight label n normalise 1 c
                \<and> (class_count (data label) c = 0 \<longrightarrow>
                     hist_weight label n normalise 1 c = 1))"
proof -
  have v: "0 < valid_count (data label) n"
    using assms by (auto simp add: valid_count_def filter_empty_conv)
  have n: "n = 1 \<or> 2 \<le> n" using assms by (cases n) auto
  have "calculate_weights label n normalise 1 =
           Inr (map (\<lambda>c. Fin (hist_weight label n normalise 1 c)) [0..<n])"
    using n v calculate_weights_one calculate_weights_many by blast
  then show ?thesis
    using hist_weight_ge_1 [of _ n 1] hist_weight_absent by fastforce
qed

text \<open>
  C5. The specification has \<open>calculate_weights\<close> return, for every label tensor, weights
  that are at least 1, and exactly 1 for a class absent from the labels. When no label
  lies in the class range every class is absent, yet the counts sum to 0, the normalised
  histogram is 0/0 = NaN and every weight is NaN, with and without normalisation: here
  for the labels 255, 7 and 255 and three classes.
\<close>

theorem absent_classes_weigh_nan:
  "calculate_weights (Tensor [1, 3] [255, 7, 255]) 3 False 1 = Inr [NaN, NaN, NaN]
   \<and> calculate_weights (Tensor [1, 3] [255, 7, 255]) 3 True 1 = Inr [NaN, NaN, NaN]"
  by code_simp

subsection \<open>One-hot expansion\<close>

text \<open>
  C6. The specification has the expanded labels sum to 1 over the class axis wherever
  the label is not ignored and not an excluded 0. With the zero class excluded, the
  validity mask of line 29 is computed after the shift of line 27, so a label equal to
  \<open>ignore_index + 1\<close> is shifted onto the ignore index and dropped: with 256 channels
  and the default ignore index 255, the label 256 gives a row of zeros.
\<close>

theorem shifted_label_hits_ignore_index:
  "returned (expand_onehot_labels (Tensor [1] [256]) None [1, 256] 255 False) =
     Inr (Tensor [1, 256] (replicate 256 0), Tensor [1, 256] (replicate 256 (Fin 0)))"
  by code_simp

subsection \<open>Rank checks\<close>

text \<open>
  C7. When the ranks of prediction and labels differ and the pair is neither (2,1) nor
  (4,3), \<open>binary_cross_entropy\<close> fails with the assertion of line 75, for every other
  argument, and the labels have not been touched.
\<close>

theorem rank_mismatch_assertion:
  assumes "dim pred \<noteq> dim label"
    and "\<not> ((dim pred = 2 \<and> dim label = 1) \<or> (dim pred = 4 \<and> dim label = 3))"
  shows "returned (binary_cross_entropy elem weight_reduce_loss pred label weight img bw cw
                     red af ii iz) = Inl AssertionError
         \<and> labels_after (binary_cross_entropy elem weight_reduce_loss pred label weight img bw
                     cw red af ii iz) = label"
  using assms by (auto simp add: binary_cross_entropy_def bind_err_def)

theorem rank_mismatch_assertion_witness:
  "dim (Tensor [2, 3, 4] (replicate 24 (Fin 0))) \<noteq> dim (Tensor [2] [0, 1 :: int])
   \<and> returned (binary_cross_entropy weight_seen unreduced
        (Tensor [2, 3, 4] (replicate 24 (Fin 0))) (Tensor [2] [0, 1]) None None True None
        ''mean'' None 255 True) = Inl AssertionError"
  using rank_mismatch_assertion [of "Tensor [2, 3, 4] (replicate 24 (Fin 0))"
      "Tensor [2] [0, 1]" weight_seen unreduced None None True None
      "''mean''" None 255 True]
  by (simp add: dim_def)

subsection \<open>Per-image mode on predictions of rank 2\<close>

text \<open>
  C10, as the code has it. In per-image histogram mode (a histogram mode, no batch
  weights, no class-weight vector) a call with a prediction of rank 2 and labels of
  rank 1 never returns a loss: when the label expansion raises, the call ends with
  that error, and otherwise with the assertion error of line 84.
\<close>

theorem per_image_rank2_fails:
  assumes "dim pred = 2" and "dim label = 1"
    and "cw = None" and "img \<noteq> None" and "\<not> bw"
  shows "returned (binary_cross_entropy elem weight_reduce_loss pred label weight img bw cw
                     red af ii iz) =
           (case returned (expand_onehot_labels label weight (shape pred) ii iz) of
              Inl e \<Rightarrow> Inl e
            | Inr r \<Rightarrow> Inl AssertionError)"
proof -
  have "elementwise_loss elem pred l img bw cw iz = Inl AssertionError" for l
    using assms by (simp add: elementwise_loss_def)
  then show ?thesis
    using assms(1,2)
    by (simp add: returned_binary_cross_entropy_expanded bind_err_def
        split: sum.split prod.split)
qed

theorem per_image_rank2_fails_witness:
  "dim (Tensor [1, 2] [Fin 0, Fin 0]) = 2 \<and> dim (Tensor [1] [0 :: int]) = 1
   \<and> Some ''norm'' \<noteq> None
   \<and> returned (binary_cross_entropy weight_seen unreduced (Tensor [1, 2] [Fin 0, Fin 0])
        (Tensor [1] [0]) None (Some ''norm'') False None ''mean'' None 255 True)
     = Inl AssertionError"
proof -
  have e: "returned (expand_onehot_labels (Tensor [1] [0]) None
             (shape (Tensor [1, 2] [Fin 0, Fin 0])) 255 True)
           = Inr (Tensor [1, 2] [1, 0], Tensor [1, 2] [Fin 1, Fin 1])"
    by code_simp
  have d: "dim (Tensor [1, 2] [Fin 0, Fin 0]) = 2" "dim (Tensor [1] [0 :: int]) = 1"
    by (simp_all add: dim_def)
  have "returned (binary_cross_entropy weight_seen unreduced (Tensor [1, 2] [Fin 0, Fin 0])
          (Tensor [1] [0]) None (Some ''norm'') False None ''mean'' None 255 True)
        = (case returned (expand_onehot_labels (Tensor [1] [0]) None
                            (shape (Tensor [1, 2] [Fin 0, Fin 0])) 255 True) of
             Inl e \<Rightarrow> Inl e
           | Inr r \<Rightarrow> Inl AssertionError)"
    by (rule per_image_rank2_fails [OF d]) simp_all
  then have "returned (binary_cross_entropy weight_seen unreduced
          (Tensor [1, 2] [Fin 0, Fin 0]) (Tensor [1] [0]) None (Some ''norm'') False None
          ''mean'' None 255 True) = Inl AssertionError"
    by (simp only: e sum.case)
  then show ?thesis
    using d by simp
qed

text \<open>
  C10 as stated fails when the expansion raises first: a label 5 with two classes ends
  the call with an index error, not with the assertion error.
\<close>

theorem per_image_rank2_counterexample:
  "returned (binary_cross_entropy weight_seen unreduced (Tensor [1, 2] [Fin 0, Fin 0])
     (Tensor [1] [5]) None (Some ''norm'') False None ''mean'' None 255 True)
   = Inl IndexError"
  by code_simp

subsection \<open>Labels outside the histogram range\<close>

text \<open>
  C8. The specification has a sample without valid labels handled silently, every class
  weight being 1. When no label lies in the histogram range the counts sum to 0, the
  normalised histogram is 0/0 = NaN, and the presence indicator 0 times NaN is NaN: every
  weight is NaN, in both modes.
\<close>

theorem empty_histogram_gives_nan:
  "calculate_weights (Tensor [2, 2] [255, 255, 255, 255]) 3 False 1 = Inr [NaN, NaN, NaN]
   \<and> calculate_weights (Tensor [2, 2] [255, 255, 255, 255]) 3 True 1 = Inr [NaN, NaN, NaN]"
  by code_simp

subsection \<open>The wrapper\<close>



end
